theory Spec2Isabelle
  imports Main "HOL-Library.Word"
begin

section \<open>Data model of the fault package\<close>

text \<open>
  Go's \<^verbatim>\<open>error\<close> values. The errors of this package are made with
  \<^verbatim>\<open>fmt.Errorf\<close>, so an error is identified by its message.
\<close>

datatype error = Errorf string

text \<open>A call of a Go function returns its results or panics.\<close>

datatype 'a outcome = Panics | Returns 'a

type_synonym uint32 = "32 word"
type_synonym uint64 = "64 word"

text \<open>A \<^verbatim>\<open>[32]byte\<close> array, read as one 256-bit value; its zero value is \<open>0\<close>.\<close>

type_synonym bytes32 = "256 word"

text \<open>
  \<^verbatim>\<open>*big.Int\<close> is an unbounded integer. \<^verbatim>\<open>x.Uint64()\<close> gives the low 64
  bits of the magnitude of \<open>x\<close>; \<^verbatim>\<open>new(big.Int).SetUint64(x)\<close> gives the value
  of the unsigned \<open>x\<close>.
\<close>

definition Uint64 :: "int \<Rightarrow> uint64" where
  "Uint64 x = word_of_int \<bar>x\<bar>"

definition SetUint64 :: "uint64 \<Rightarrow> int" where
  "SetUint64 x = uint x"

text \<open>
  The anonymous struct that \<^verbatim>\<open>ClaimFetcher.ClaimData\<close> returns (loader.go, lines
  14 to 20). Its fields \<^verbatim>\<open>ParentIndex\<close>, \<^verbatim>\<open>Countered\<close>, \<^verbatim>\<open>Claim\<close>,
  \<^verbatim>\<open>Position\<close> and \<^verbatim>\<open>Clock\<close> carry the prefix \<open>fetched\<close> here, since
  \<^verbatim>\<open>Claim\<close> has fields of the same names.
\<close>

record FetchedClaim =
  fetchedParentIndex :: uint32
  fetchedCountered :: bool
  fetchedClaim :: bytes32
  fetchedPosition :: int
  fetchedClock :: int

text \<open>
  Modelled from the spec: the declarations of \<^verbatim>\<open>ClaimData\<close> and \<^verbatim>\<open>Claim\<close> are
  declared elsewhere in the repository. The fields are the ones the code names (\<^verbatim>\<open>Value\<close>,
  \<^verbatim>\<open>Position\<close>, \<^verbatim>\<open>Parent\<close>, \<^verbatim>\<open>ParentContractIndex\<close>) and the ones the
  data model lists beside them (\<^verbatim>\<open>Countered\<close>, \<^verbatim>\<open>Clock\<close>). \<^verbatim>\<open>Claim\<close>
  embeds \<^verbatim>\<open>ClaimData\<close>, which is a record extension. The two integer fields are 64-bit
  values. The type of a position is the parameter \<open>'p\<close>: nothing below depends on how a
  position is represented. Go's zero value of a position is written \<open>0\<close>.
\<close>

record 'p ClaimData =
  Value :: bytes32
  Position :: 'p

record 'p Claim = "'p ClaimData" +
  Parent :: "'p ClaimData"
  ParentContractIndex :: "64 word"
  Countered :: bool
  Clock :: "64 word"

text \<open>The zero values \<^verbatim>\<open>ClaimData{}\<close> and \<^verbatim>\<open>Claim{}\<close>.\<close>

definition zeroClaimData :: "('p::zero) ClaimData" where
  "zeroClaimData = \<lparr>Value = 0, Position = 0\<rparr>"

definition zeroClaim :: "('p::zero) Claim" where
  "zeroClaim = \<lparr>Value = 0, Position = 0, Parent = zeroClaimData,
     ParentContractIndex = 0, Countered = False, Clock = 0\<rparr>"

section \<open>The ports of the loader\<close>

text \<open>
  \<^verbatim>\<open>ClaimFetcher\<close> is an interface over a remote contract. A call may change what
  later calls return (the chain moves on, a connection drops), so each method takes the
  state \<open>'s\<close> of the remote side and returns the next one. A method returns either an
  error or a value. The \<^verbatim>\<open>*bind.CallOpts\<close> argument is always the empty options and is
  left out.
\<close>

record 's ClaimFetcher =
  ClaimData :: "int \<Rightarrow> 's \<Rightarrow> (error + FetchedClaim) \<times> 's"
  ClaimDataLen :: "'s \<Rightarrow> (error + int) \<times> 's"

text \<open>
  \<^verbatim>\<open>Game\<close>, the claim store the loader pushes into, with the three methods the test's
  \<^verbatim>\<open>mockGameState\<close> implements. \<^verbatim>\<open>Put\<close> returns \<open>None\<close> for a nil error.
\<close>

record ('g, 'p) Game =
  Put :: "'p Claim \<Rightarrow> 'g \<Rightarrow> error option \<times> 'g"
  Claims :: "'g \<Rightarrow> 'p Claim list \<times> 'g"
  IsDuplicate :: "'p Claim \<Rightarrow> 'g \<Rightarrow> bool \<times> 'g"

text \<open>The \<^verbatim>\<open>loader\<close> struct; its logger is never written to and is left out.\<close>

record ('g, 's, 'p) loader =
  state :: "('g, 'p) Game"
  claimFetcher :: "'s ClaimFetcher"

definition NewLoader :: "('g, 'p) Game \<Rightarrow> 's ClaimFetcher \<Rightarrow> ('g, 's, 'p) loader" where
  "NewLoader st cf = \<lparr>state = st, claimFetcher = cf\<rparr>"

text \<open>
  The calls a run makes on its ports, in order, each with what it returned. The functions
  below return this list beside their result, so that a claim about which calls occur
  can be stated.
\<close>

datatype fetch_call =
  ClaimDataLenCall "error + int"
  | ClaimDataCall int "error + FetchedClaim"



section \<open>loader.go\<close>

text \<open>
  \<^verbatim>\<open>fetchClaim\<close> (lines 43 to 69). \<^verbatim>\<open>NewPositionFromGIndex\<close> and
  \<^verbatim>\<open>IsRootPosition\<close> are declared elsewhere in the repository and are parameters:
  the first is used as a function of one \<^verbatim>\<open>uint64\<close> with a single result, the second
  is a test on the position of the claim just built.
\<close>

definition fetchClaim ::
  "(uint64 \<Rightarrow> 'p::zero) \<Rightarrow> ('p \<Rightarrow> bool) \<Rightarrow> ('g, 's, 'p) loader \<Rightarrow> uint64 \<Rightarrow> 's
    \<Rightarrow> (error + 'p Claim) \<times> fetch_call list \<times> 's" where
  "fetchClaim NewPositionFromGIndex IsRootPosition l arrIndex s =
    (case ClaimData (claimFetcher l) (SetUint64 arrIndex) s of
      (Inl err, s1) \<Rightarrow> (Inl err, [ClaimDataCall (SetUint64 arrIndex) (Inl err)], s1)
    | (Inr fetched, s1) \<Rightarrow>
        (let claim = zeroClaim\<lparr>Value := fetchedClaim fetched,
               Position := NewPositionFromGIndex (Uint64 (fetchedPosition fetched))\<rparr>;
             call1 = ClaimDataCall (SetUint64 arrIndex) (Inr fetched)
         in if \<not> IsRootPosition (Position claim) then
              (let parentIndex = (ucast (fetchedParentIndex fetched) :: uint64) in
               case ClaimData (claimFetcher l) (SetUint64 parentIndex) s1 of
                 (Inl err, s2) \<Rightarrow>
                   (Inl err, [call1, ClaimDataCall (SetUint64 parentIndex) (Inl err)], s2)
               | (Inr parentClaim, s2) \<Rightarrow>
                   (Inr (claim\<lparr>Parent := \<lparr>Value = fetchedClaim parentClaim,
                          Position = NewPositionFromGIndex (Uint64 (fetchedPosition parentClaim))\<rparr>\<rparr>),
                    [call1, ClaimDataCall (SetUint64 parentIndex) (Inr parentClaim)], s2))
            else (Inr claim, [call1], s1)))"

text \<open>
  \<^verbatim>\<open>FetchClaims\<close> (lines 72 to 90). The loop runs \<open>i\<close> from 0 while
  \<open>i < claimCount.Uint64()\<close>, both of type \<^verbatim>\<open>uint64\<close>; \<open>claimList\<close> starts as
  \<^verbatim>\<open>make([]Claim, claimCount.Uint64())\<close>, a list of zero claims, and \<open>calls\<close> are the
  calls made so far. On an error the function returns \<^verbatim>\<open>[]Claim{}\<close> and the error.
  \<^verbatim>\<open>make\<close> panics when the length is no \<^verbatim>\<open>int\<close>, which is from \<open>2 ^ 63\<close> on, and
  when the slice is longer than the machine can allocate: \<open>maxLen\<close> is the length of the
  longest slice of claims that can be made, a property of the machine and not of the
  code. Then \<^verbatim>\<open>FetchClaims\<close> does not return, and no claim has been fetched.
\<close>

function FetchClaims_loop ::
  "(uint64 \<Rightarrow> 'p::zero) \<Rightarrow> ('p \<Rightarrow> bool) \<Rightarrow> ('g, 's, 'p) loader \<Rightarrow> uint64 \<Rightarrow> uint64
    \<Rightarrow> 'p Claim list \<Rightarrow> fetch_call list \<Rightarrow> 's
    \<Rightarrow> ('p Claim list \<times> error option) \<times> fetch_call list \<times> 's" where
  "FetchClaims_loop NewPositionFromGIndex IsRootPosition l n i claimList calls s =
    (if i < n then
       (case fetchClaim NewPositionFromGIndex IsRootPosition l i s of
         (Inl err, cs, s1) \<Rightarrow> (([], Some err), calls @ cs, s1)
       | (Inr claim, cs, s1) \<Rightarrow>
           FetchClaims_loop NewPositionFromGIndex IsRootPosition l n (i + 1)
             (claimList[unat i := claim]) (calls @ cs) s1)
     else ((claimList, None), calls, s))"
  by pat_completeness auto
termination
proof (relation "measure (\<lambda>(np, ir, l, n, i, cl, calls, s). unat n - unat i)")
  show "wf (measure (\<lambda>(np :: uint64 \<Rightarrow> 'p, ir :: 'p \<Rightarrow> bool, l :: ('g, 's, 'p) loader,
      n :: uint64, i :: uint64, cl :: 'p Claim list, calls :: fetch_call list, s :: 's).
      unat n - unat i))"
    by simp
next
  fix np :: "uint64 \<Rightarrow> 'p" and ir :: "'p \<Rightarrow> bool" and l :: "('g, 's, 'p) loader"
    and n i :: uint64 and cl :: "'p Claim list" and calls :: "fetch_call list" and s :: 's
    and x :: "(error + 'p Claim) \<times> fetch_call list \<times> 's" and x1 :: "error + 'p Claim"
    and x2 :: "fetch_call list \<times> 's" and c :: "'p Claim" and cs :: "fetch_call list" and s1 :: 's
  assume "i < n"
  then have lt: "unat i < unat n" by (simp add: word_less_nat_alt)
  moreover have "unat n < 2 ^ 64" using unsigned_less [of n] by simp
  ultimately have "unat i + 1 < 2 ^ 64" by simp
  then have "unat (i + 1) = Suc (unat i)" by (simp add: unat_word_ariths)
  with lt show "((np, ir, l, n, i + 1, cl[unat i := c], calls @ cs, s1), (np, ir, l, n, i, cl, calls, s))
      \<in> measure (\<lambda>(np, ir, l, n, i, cl, calls, s). unat n - unat i)"
    by simp
qed

declare FetchClaims_loop.simps [simp del]

definition FetchClaims ::
  "(uint64 \<Rightarrow> 'p::zero) \<Rightarrow> ('p \<Rightarrow> bool) \<Rightarrow> uint64 \<Rightarrow> ('g, 's, 'p) loader \<Rightarrow> 's
    \<Rightarrow> ('p Claim list \<times> error option) outcome \<times> fetch_call list \<times> 's" where
  "FetchClaims NewPositionFromGIndex IsRootPosition maxLen l s =
    (case ClaimDataLen (claimFetcher l) s of
      (Inl err, s1) \<Rightarrow> (Returns ([], Some err), [ClaimDataLenCall (Inl err)], s1)
    | (Inr claimCount, s1) \<Rightarrow>
        if 2 ^ 63 \<le> Uint64 claimCount \<or> maxLen < Uint64 claimCount
        then (Panics, [ClaimDataLenCall (Inr claimCount)], s1)
        else (case FetchClaims_loop NewPositionFromGIndex IsRootPosition l (Uint64 claimCount) 0
                     (replicate (unat (Uint64 claimCount)) zeroClaim)
                     [ClaimDataLenCall (Inr claimCount)] s1 of
                (r, calls, s2) \<Rightarrow> (Returns r, calls, s2)))"


section \<open>The responder (player.go, lines 150 to 309)\<close>

type_synonym address = "160 word"
type_synonym bytes = "8 word list"

text \<open>
  A \<^verbatim>\<open>types.Transaction\<close>, as far as the responder reads it: the results of its
  methods \<^verbatim>\<open>Data()\<close> and \<^verbatim>\<open>To()\<close>.
\<close>

record Transaction =
  txnData :: bytes
  txnTo :: "address option"

text \<open>
  \<^verbatim>\<open>bindings.FaultDisputeGameTransactor\<close>, the port that encodes the two moves. Both
  methods take the index of the parent claim and the 32-byte value (the
  \<^verbatim>\<open>*bind.TransactOpts\<close> argument is always the empty options) and return an error or
  a transaction. The generated binding is outside the sources, so a port is any pair of
  such functions, one that fails on every call included. \<open>transact_call\<close> names a call
  on the port and \<open>transact\<close> makes it.
\<close>

record FaultDisputeGameTransactor =
  Defend :: "int \<Rightarrow> bytes32 \<Rightarrow> error + Transaction"
  Attack :: "int \<Rightarrow> bytes32 \<Rightarrow> error + Transaction"

datatype transact_call = DefendCall int bytes32 | AttackCall int bytes32

fun transact :: "FaultDisputeGameTransactor \<Rightarrow> transact_call \<Rightarrow> error + Transaction" where
  "transact t (DefendCall i v) = Defend t i v"
| "transact t (AttackCall i v) = Attack t i v"

text \<open>\<^verbatim>\<open>faultResponderTxData\<close> (lines 274 to 295), the one implementation of \<^verbatim>\<open>TxData\<close>.\<close>

record faultResponderTxData =
  data :: bytes
  dest :: "address option"

definition NewFaultResponderTxData :: "Transaction \<Rightarrow> faultResponderTxData" where
  "NewFaultResponderTxData tx = \<lparr>data = txnData tx, dest = txnTo tx\<rparr>"

definition Bytes :: "faultResponderTxData \<Rightarrow> bytes" where
  "Bytes txdata = data txdata"

definition Destination :: "faultResponderTxData \<Rightarrow> address option" where
  "Destination txdata = dest txdata"

text \<open>
  Modelled from the spec: the transaction queue of the \<^verbatim>\<open>txmgr\<close> package is declared
  elsewhere in the repository. It accepts a transaction's data, a candidate (destination, payload, gas
  limit) and a completion channel, and later sends one receipt, with a status, on that
  channel. A queue is kept as its bound and the submissions handed to it; \<^verbatim>\<open>Send\<close>
  hands one over and returns.
\<close>

record TxCandidate =
  To :: "address option"
  TxData :: bytes
  GasLimit :: uint64

record Receipt =
  TxHash :: bytes32
  Status :: uint64

record TxReceipt =
  ID :: faultResponderTxData
  Receipt :: Receipt

record txQueue =
  maxPending :: uint64
  sent :: "(faultResponderTxData \<times> TxCandidate) list"

definition NewQueue :: "uint64 \<Rightarrow> txQueue" where
  "NewQueue bound = \<lparr>maxPending = bound, sent = []\<rparr>"

definition Send :: "faultResponderTxData \<Rightarrow> TxCandidate \<Rightarrow> txQueue \<Rightarrow> txQueue" where
  "Send txdata candidate q = q\<lparr>sent := sent q @ [(txdata, candidate)]\<rparr>"

text \<open>
  The \<^verbatim>\<open>faultResponder\<close> struct (lines 167 to 181). \<open>log\<close> holds the lines written to
  the logger: \<^verbatim>\<open>"Shutting down fault responder"\<close>, \<^verbatim>\<open>"responder received receipt"\<close>
  with the hash and the status of the receipt, and \<^verbatim>\<open>"closing responder receipt handler"\<close>.
  \<open>shutdownCtx\<close> says whether the shutdown context is cancelled, and \<open>txMgr\<close> holds the
  queues made on the transaction manager, in the order of their making. The address and
  the caller binding are never read and are left out.
\<close>

datatype log_line = ShuttingDown | ReceivedReceipt bytes32 uint64 | ClosingHandler

record faultResponder =
  log :: "log_line list"
  shutdownCtx :: bool
  txMgr :: "txQueue list"
  MaxPendingTransactions :: uint64
  fdgContractTransactor :: FaultDisputeGameTransactor

definition NewFaultResponder :: "uint64 \<Rightarrow> FaultDisputeGameTransactor \<Rightarrow> faultResponder" where
  "NewFaultResponder mpt transactor =
    \<lparr>log = [], shutdownCtx = False, txMgr = [], MaxPendingTransactions = mpt,
     fdgContractTransactor = transactor\<rparr>"

text \<open>\<^verbatim>\<open>Quit\<close> (lines 207 to 210) logs and cancels the shutdown context.\<close>

definition Quit :: "faultResponder \<Rightarrow> faultResponder" where
  "Quit r = r\<lparr>log := log r @ [ShuttingDown], shutdownCtx := True\<rparr>"

text \<open>
  \<^verbatim>\<open>buildTxData\<close> (lines 213 to 231). \<^verbatim>\<open>DefendsParent\<close> and \<^verbatim>\<open>ValueBytes\<close> are
  methods of \<^verbatim>\<open>Claim\<close> declared elsewhere in the repository and are parameters.
  \<^verbatim>\<open>big.NewInt(int64(response.ParentContractIndex))\<close> is the signed reading of the
  64-bit index. The result is paired with the call made on the port.
\<close>

definition buildTxData ::
  "('p Claim \<Rightarrow> bool) \<Rightarrow> ('p Claim \<Rightarrow> bytes32) \<Rightarrow> faultResponder \<Rightarrow> 'p Claim
    \<Rightarrow> (error + faultResponderTxData) \<times> transact_call" where
  "buildTxData DefendsParent ValueBytes r response =
    (let bigIndex = sint (ParentContractIndex response) in
     if DefendsParent response then
       (case Defend (fdgContractTransactor r) bigIndex (ValueBytes response) of
         Inl err \<Rightarrow> (Inl err, DefendCall bigIndex (ValueBytes response))
       | Inr txdata \<Rightarrow> (Inr (NewFaultResponderTxData txdata), DefendCall bigIndex (ValueBytes response)))
     else
       (case Attack (fdgContractTransactor r) bigIndex (ValueBytes response) of
         Inl err \<Rightarrow> (Inl err, AttackCall bigIndex (ValueBytes response))
       | Inr txdata \<Rightarrow> (Inr (NewFaultResponderTxData txdata), AttackCall bigIndex (ValueBytes response))))"

text \<open>
  \<^verbatim>\<open>handleReceipts\<close> (lines 260 to 271) blocks in a \<^verbatim>\<open>select\<close> over the receipt
  channel and the \<^verbatim>\<open>Done\<close> channel of the shutdown context. What the waiting call sees
  is an input of the model: a list of wake-ups, one for each time the \<^verbatim>\<open>select\<close> is
  evaluated, the first of them on entry. A wake-up says whether a receipt is ready on the
  channel, whether another goroutine has called \<^verbatim>\<open>Quit\<close> since the wake-up before, and
  which case the runtime takes when both are ready. \<open>ready\<close> holds when one of the two
  cases can proceed. At a wake-up where none can, the call stays blocked and goes on to
  the next; when the list is used up the call is still blocked, which is the result
  \<open>None\<close>. Both cases of the \<^verbatim>\<open>select\<close> return, so the \<^verbatim>\<open>for\<close> loop never runs twice.
\<close>

record wakeup =
  receipt :: "TxReceipt option"
  quit :: bool
  receiveFirst :: bool

definition ready :: "faultResponder \<Rightarrow> wakeup \<Rightarrow> bool" where
  "ready r w \<longleftrightarrow> shutdownCtx r \<or> quit w \<or> receipt w \<noteq> None"

fun handleReceipts :: "faultResponder \<Rightarrow> wakeup list \<Rightarrow> faultResponder option" where
  "handleReceipts r [] = None"
| "handleReceipts r (w # ws) =
    (let r1 = (if quit w then Quit r else r) in
     case receipt w of
       Some rec \<Rightarrow>
         if shutdownCtx r1 \<and> \<not> receiveFirst w
         then Some (r1\<lparr>log := log r1 @ [ClosingHandler]\<rparr>)
         else Some (r1\<lparr>log := log r1 @ [ReceivedReceipt (TxHash (Receipt rec)) (Status (Receipt rec))]\<rparr>)
     | None \<Rightarrow>
         if shutdownCtx r1 then Some (r1\<lparr>log := log r1 @ [ClosingHandler]\<rparr>)
         else handleReceipts r1 ws)"

text \<open>
  \<^verbatim>\<open>Respond\<close> (lines 234 to 256). The first component of the result is \<open>None\<close> while
  the call is still blocked, \<open>Some (Some err)\<close> when it returned the error \<open>err\<close>, and
  \<open>Some None\<close> when it returned nil; the second is the responder afterwards.
\<close>

definition Respond ::
  "('p Claim \<Rightarrow> bool) \<Rightarrow> ('p Claim \<Rightarrow> bytes32) \<Rightarrow> faultResponder \<Rightarrow> 'p Claim \<Rightarrow> wakeup list
    \<Rightarrow> error option option \<times> faultResponder" where
  "Respond DefendsParent ValueBytes r response wakeups =
    (case buildTxData DefendsParent ValueBytes r response of
      (Inl err, call) \<Rightarrow> (Some (Some err), r)
    | (Inr txData, call) \<Rightarrow>
        (let queue = NewQueue (MaxPendingTransactions r);
             candidate = \<lparr>To = Destination txData, TxData = Bytes txData, GasLimit = 0\<rparr>;
             r1 = r\<lparr>txMgr := txMgr r @ [Send txData candidate queue]\<rparr>
         in case handleReceipts r1 wakeups of
              None \<Rightarrow> (None, r1)
            | Some r2 \<Rightarrow> (Some None, r2)))"

section \<open>Test doubles and example inputs\<close>

definition mockPutError :: error where "mockPutError = Errorf ''put errored''"

record mockGameState =
  putCalled :: int
  putErrors :: bool

definition mockGameState_Game :: "(mockGameState, 'p) Game" where
  "mockGameState_Game =
    \<lparr>Put = (\<lambda>claim m. (if putErrors m then Some mockPutError else None,
                         m\<lparr>putCalled := putCalled m + 1\<rparr>)),
     Claims = (\<lambda>m. ([], m)),
     IsDuplicate = (\<lambda>claim m. (False, m))\<rparr>"




text \<open>
  Modelled from the spec: the methods of a position and of a claim are declared elsewhere
  in the repository, and the functions above take them as parameters. Where a statement is
  evaluated on an input, these values stand for them: a position is its generalized index
  \<open>g\<close> with \<open>1 \<le> g\<close>, the root is the index 1, and a claim defends its parent when its
  position is the right child \<open>2 g + 1\<close> of the parent's position \<open>g\<close>. The spec has the
  constructor fail at the raw index 0, for which there is no generalized index. The loader
  calls the constructor as a function with one result, which has no way to fail, and the
  loader's test calls it on the raw index 0 and expects a claim: the constructor here
  keeps \<open>1 \<le> g\<close> and gives the root at the raw index 0.
\<close>

definition gindexPosition :: "uint64 \<Rightarrow> uint64" where
  "gindexPosition g = (if g = 0 then 1 else g)"

definition gindexIsRoot :: "uint64 \<Rightarrow> bool" where
  "gindexIsRoot g \<longleftrightarrow> g = 1"

definition gindexDefendsParent :: "uint64 Claim \<Rightarrow> bool" where
  "gindexDefendsParent c \<longleftrightarrow> Position c = 2 * Position (Parent c) + 1"

text \<open>
  Further remote sources for evaluation. \<open>tableFetcher\<close> serves the claims of a list
  and never changes. \<open>countLoader n\<close> has the remote source of the mock with the count
  \<open>n\<close> in place of 1: every fetch succeeds with the zero record. \<open>flakyFetcher\<close> serves the
  list and counts the calls made on it: the call with number \<open>k\<close> (from 0) fails.
  \<open>exampleMaxLen\<close> is a value for the longest slice that can be made.
\<close>

definition tableFetcher :: "FetchedClaim list \<Rightarrow> unit ClaimFetcher" where
  "tableFetcher tbl =
    \<lparr>ClaimData = (\<lambda>arg0 u.
        (if 0 \<le> arg0 \<and> arg0 < int (length tbl) then Inr (tbl ! nat arg0)
         else Inl (Errorf ''no such claim''), u)),
     ClaimDataLen = (\<lambda>u. (Inr (int (length tbl)), u))\<rparr>"

definition exampleTable :: "FetchedClaim list" where
  "exampleTable =
    [\<lparr>fetchedParentIndex = 0, fetchedCountered = True, fetchedClaim = 170,
       fetchedPosition = 1, fetchedClock = 7\<rparr>,
     \<lparr>fetchedParentIndex = 0, fetchedCountered = True, fetchedClaim = 187,
       fetchedPosition = 2, fetchedClock = 9\<rparr>,
     \<lparr>fetchedParentIndex = 1, fetchedCountered = False, fetchedClaim = 204,
       fetchedPosition = 5, fetchedClock = 11\<rparr>]"

definition exampleLoader :: "(mockGameState, unit, uint64) loader" where
  "exampleLoader = NewLoader mockGameState_Game (tableFetcher exampleTable)"

definition exampleMaxLen :: uint64 where
  "exampleMaxLen = 1000000"




text \<open>
  Example inputs of the responder: a test double of the port that refuses a negative
  index and encodes every other move (it stands for no deployed binding), a responder
  with \<^verbatim>\<open>MaxPendingTransactions\<close> 1, three responses (an attack, a defence, and a
  defence with the index -1), and three wake-ups.
\<close>

definition exampleTransactor :: FaultDisputeGameTransactor where
  "exampleTransactor =
    \<lparr>Defend = (\<lambda>i v. if i < 0 then Inl (Errorf ''negative index'')
                      else Inr \<lparr>txnData = [222], txnTo = Some 4096\<rparr>),
     Attack = (\<lambda>i v. if i < 0 then Inl (Errorf ''negative index'')
                      else Inr \<lparr>txnData = [173], txnTo = Some 4096\<rparr>)\<rparr>"

definition exampleResponder :: faultResponder where
  "exampleResponder = NewFaultResponder 1 exampleTransactor"

definition attackResponse :: "uint64 Claim" where
  "attackResponse = \<lparr>Value = 204, Position = 4, Parent = \<lparr>Value = 187, Position = 2\<rparr>,
     ParentContractIndex = 1, Countered = False, Clock = 0\<rparr>"

definition defendResponse :: "uint64 Claim" where
  "defendResponse = \<lparr>Value = 221, Position = 5, Parent = \<lparr>Value = 187, Position = 2\<rparr>,
     ParentContractIndex = 1, Countered = False, Clock = 0\<rparr>"

definition badResponse :: "uint64 Claim" where
  "badResponse = \<lparr>Value = 221, Position = 5, Parent = \<lparr>Value = 187, Position = 2\<rparr>,
     ParentContractIndex = - 1, Countered = False, Clock = 0\<rparr>"

definition idle :: wakeup where
  "idle = \<lparr>receipt = None, quit = False, receiveFirst = False\<rparr>"

definition quitCalled :: wakeup where
  "quitCalled = \<lparr>receipt = None, quit = True, receiveFirst = False\<rparr>"

definition receiptArrives :: "uint64 \<Rightarrow> wakeup" where
  "receiptArrives status =
    \<lparr>receipt = Some \<lparr>ID = \<lparr>data = [173], dest = Some 4096\<rparr>,
                       Receipt = \<lparr>TxHash = 48879, Status = status\<rparr>\<rparr>,
     quit = False, receiveFirst = False\<rparr>"

section \<open>Facts about the loader\<close>







lemma FetchClaims_Returns:
  assumes "FetchClaims np ir m l s = (Returns (claims, err), calls, s')"
  shows "(\<exists>e. claims = [] \<and> err = Some e \<and> calls = [ClaimDataLenCall (Inl e)]) \<or>
    (\<exists>n s1. Uint64 n < 2 ^ 63 \<and> Uint64 n \<le> m \<and>
       FetchClaims_loop np ir l (Uint64 n) 0 (replicate (unat (Uint64 n)) zeroClaim)
         [ClaimDataLenCall (Inr n)] s1 = ((claims, err), calls, s'))"
proof (cases "ClaimDataLen (claimFetcher l) s")
  case (Pair r s1)
  show ?thesis
  proof (cases r)
    case (Inl e)
    with Pair assms show ?thesis by (auto simp: FetchClaims_def)
  next
    case (Inr n)
    with Pair assms show ?thesis
      by (auto simp: FetchClaims_def not_le not_less split: if_splits prod.splits)
  qed
qed



lemma fetchClaim_unset:
  "fetchClaim np ir l i s = (Inr c, cs, s') \<Longrightarrow>
     ParentContractIndex c = 0 \<and> Countered c = False \<and> Clock c = 0"
  by (auto simp: fetchClaim_def zeroClaim_def Let_def split: prod.splits sum.splits if_splits)

lemma loop_invariant:
  "FetchClaims_loop np ir l n i cl calls s = ((claims, err), calls', s') \<Longrightarrow>
   (\<And>c cs s0 s1 j. fetchClaim np ir l j s0 = (Inr c, cs, s1) \<Longrightarrow> P c) \<Longrightarrow>
   (\<forall>c\<in>set cl. P c) \<Longrightarrow> (\<forall>c\<in>set claims. P c)"
proof (induction np ir l n i cl calls s rule: FetchClaims_loop.induct)
  case (1 np ir l n i cl calls s)
  show ?case
  proof (cases "i < n")
    case False
    with "1.prems" show ?thesis by (simp add: FetchClaims_loop.simps)
  next
    case True
    obtain r cs s1 where f: "fetchClaim np ir l i s = (r, cs, s1)" by (cases "fetchClaim np ir l i s")
    show ?thesis
    proof (cases r)
      case (Inl e)
      with True f "1.prems"(1) show ?thesis
        by (auto simp: FetchClaims_loop.simps [of np ir l n i])
    next
      case (Inr c)
      with True f "1.prems"(1) have run:
        "FetchClaims_loop np ir l n (i + 1) (cl[unat i := c]) (calls @ cs) s1 = ((claims, err), calls', s')"
        by (simp add: FetchClaims_loop.simps [of np ir l n i])
      from f Inr "1.prems"(2) have "P c" by blast
      with "1.prems"(3) have "\<forall>x\<in>set (cl[unat i := c]). P x"
        using set_update_subset_insert [of cl "unat i" c] by auto
      with "1.IH" [OF True f [symmetric] _ refl run] Inr "1.prems"(2) show ?thesis by blast
    qed
  qed
qed




lemma example_FetchClaims:
  "FetchClaims gindexPosition gindexIsRoot exampleMaxLen exampleLoader () =
    (Returns ([\<lparr>Value = 170, Position = 1, Parent = \<lparr>Value = 0, Position = 0\<rparr>,
         ParentContractIndex = 0, Countered = False, Clock = 0\<rparr>,
       \<lparr>Value = 187, Position = 2, Parent = \<lparr>Value = 170, Position = 1\<rparr>,
         ParentContractIndex = 0, Countered = False, Clock = 0\<rparr>,
       \<lparr>Value = 204, Position = 5, Parent = \<lparr>Value = 187, Position = 2\<rparr>,
         ParentContractIndex = 0, Countered = False, Clock = 0\<rparr>], None),
     [ClaimDataLenCall (Inr 3),
      ClaimDataCall 0 (Inr (exampleTable ! 0)),
      ClaimDataCall 1 (Inr (exampleTable ! 1)), ClaimDataCall 0 (Inr (exampleTable ! 0)),
      ClaimDataCall 2 (Inr (exampleTable ! 2)), ClaimDataCall 1 (Inr (exampleTable ! 1))], ())"
  by code_simp









section \<open>Claims about the loader\<close>



text \<open>
  C2. Every claim that \<^verbatim>\<open>FetchClaims\<close> returns has \<^verbatim>\<open>ParentContractIndex\<close> 0,
  \<^verbatim>\<open>Countered\<close> false and \<^verbatim>\<open>Clock\<close> 0, whatever the remote source reported.
\<close>

theorem FetchClaims_unset_fields:
  assumes "FetchClaims np ir maxLen l s = (Returns (claims, err), calls, s')" and "c \<in> set claims"
  shows "ParentContractIndex c = 0 \<and> Countered c = False \<and> Clock c = 0"
  using FetchClaims_Returns [OF assms(1)]
proof (elim disjE exE conjE)
  fix e assume "claims = []"
  with assms(2) show ?thesis by simp
next
  fix n s1
  assume run: "FetchClaims_loop np ir l (Uint64 n) 0 (replicate (unat (Uint64 n)) zeroClaim)
         [ClaimDataLenCall (Inr n)] s1 = ((claims, err), calls, s')"
  have "\<forall>c\<in>set claims. ParentContractIndex c = 0 \<and> Countered c = False \<and> Clock c = 0"
    by (rule loop_invariant [OF run]) (auto dest: fetchClaim_unset simp: zeroClaim_def)
  with assms(2) show ?thesis by blast
qed

text \<open>
  An instance: the remote claim at index 1 is countered and has clock 9; the claim returned
  for it has neither.
\<close>

theorem FetchClaims_unset_fields_witness:
  "fetchedCountered (exampleTable ! 1) = True \<and> fetchedClock (exampleTable ! 1) = 9
   \<and> fst (FetchClaims gindexPosition gindexIsRoot exampleMaxLen exampleLoader ()) =
       Returns ([\<lparr>Value = 170, Position = 1, Parent = \<lparr>Value = 0, Position = 0\<rparr>,
         ParentContractIndex = 0, Countered = False, Clock = 0\<rparr>,
       \<lparr>Value = 187, Position = 2, Parent = \<lparr>Value = 170, Position = 1\<rparr>,
         ParentContractIndex = 0, Countered = False, Clock = 0\<rparr>,
       \<lparr>Value = 204, Position = 5, Parent = \<lparr>Value = 187, Position = 2\<rparr>,
         ParentContractIndex = 0, Countered = False, Clock = 0\<rparr>], None)
   \<and> ParentContractIndex (\<lparr>Value = 187, Position = 2, Parent = \<lparr>Value = 170, Position = 1\<rparr>,
         ParentContractIndex = 0, Countered = False, Clock = 0\<rparr> :: uint64 Claim) = 0
   \<and> Countered (\<lparr>Value = 187, Position = 2, Parent = \<lparr>Value = 170, Position = 1\<rparr>,
         ParentContractIndex = 0, Countered = False, Clock = 0\<rparr> :: uint64 Claim) = False
   \<and> Clock (\<lparr>Value = 187, Position = 2, Parent = \<lparr>Value = 170, Position = 1\<rparr>,
         ParentContractIndex = 0, Countered = False, Clock = 0\<rparr> :: uint64 Claim) = 0"
proof -
  let ?c = "\<lparr>Value = 187, Position = 2, Parent = \<lparr>Value = 170, Position = 1\<rparr>,
         ParentContractIndex = 0, Countered = False, Clock = 0\<rparr> :: uint64 Claim"
  have mem: "?c \<in> set [\<lparr>Value = 170, Position = 1, Parent = \<lparr>Value = 0, Position = 0\<rparr>,
         ParentContractIndex = 0, Countered = False, Clock = 0\<rparr>,
       \<lparr>Value = 187, Position = 2, Parent = \<lparr>Value = 170, Position = 1\<rparr>,
         ParentContractIndex = 0, Countered = False, Clock = 0\<rparr>,
       \<lparr>Value = 204, Position = 5, Parent = \<lparr>Value = 187, Position = 2\<rparr>,
         ParentContractIndex = 0, Countered = False, Clock = 0\<rparr>]" by simp
  have tbl: "fetchedCountered (exampleTable ! 1) = True \<and> fetchedClock (exampleTable ! 1) = 9"
    by (simp add: exampleTable_def)
  from FetchClaims_unset_fields [OF example_FetchClaims mem] tbl show ?thesis
    by (simp add: example_FetchClaims)
qed











section \<open>Facts about the responder\<close>

lemma handleReceipts_None: "handleReceipts r ws = None \<longleftrightarrow> (\<forall>w\<in>set ws. \<not> ready r w)"
  by (induction ws arbitrary: r) (auto simp: ready_def Quit_def Let_def split: option.splits)

lemma handleReceipts_append:
  "handleReceipts r ws \<noteq> None \<Longrightarrow> handleReceipts r (ws @ ws') = handleReceipts r ws"
  by (induction ws arbitrary: r) (auto simp: Let_def split: option.splits)

lemma handleReceipts_take:
  assumes "k < length ws" and "ready r (ws ! k)"
  shows "handleReceipts r (take (Suc k) ws) \<noteq> None \<and>
         handleReceipts r ws = handleReceipts r (take (Suc k) ws)"
proof -
  from assms have "ws ! k \<in> set (take (Suc k) ws)"
    by (metis in_set_conv_nth length_take lessI min_less_iff_conj nth_take)
  with assms(2) have ne: "handleReceipts r (take (Suc k) ws) \<noteq> None"
    by (auto simp: handleReceipts_None)
  from handleReceipts_append [OF ne, of "drop (Suc k) ws"] ne show ?thesis by simp
qed

lemma Respond_take:
  assumes "k < length ws" and "ready r (ws ! k)"
  shows "fst (Respond D V r response ws) \<noteq> None \<and>
         Respond D V r response ws = Respond D V r response (take (Suc k) ws)"
proof (cases "buildTxData D V r response")
  case (Pair res call)
  show ?thesis
  proof (cases res)
    case (Inl err)
    with Pair show ?thesis by (simp add: Respond_def)
  next
    case (Inr txData)
    let ?r1 = "r\<lparr>txMgr := txMgr r @ [Send txData
        \<lparr>To = Destination txData, TxData = Bytes txData, GasLimit = 0\<rparr>
        (NewQueue (MaxPendingTransactions r))]\<rparr>"
    from assms(2) have "ready ?r1 (ws ! k)" by (simp add: ready_def)
    from handleReceipts_take [OF assms(1) this] Pair Inr show ?thesis
      by (auto simp: Respond_def Let_def split: option.splits)
  qed
qed

lemma example_Respond_receipt:
  "Respond gindexDefendsParent Value exampleResponder attackResponse [idle, receiptArrives status] =
     (Some None,
      \<lparr>log = [ReceivedReceipt 48879 status], shutdownCtx = False,
       txMgr = [\<lparr>maxPending = 1,
                 sent = [(\<lparr>data = [173], dest = Some 4096\<rparr>,
                          \<lparr>To = Some 4096, TxData = [173], GasLimit = 0\<rparr>)]\<rparr>],
       MaxPendingTransactions = 1, fdgContractTransactor = exampleTransactor\<rparr>)"
  by (simp add: Respond_def buildTxData_def exampleResponder_def NewFaultResponder_def
      exampleTransactor_def attackResponse_def gindexDefendsParent_def idle_def receiptArrives_def
      NewFaultResponderTxData_def NewQueue_def Send_def Destination_def Bytes_def Let_def)

lemma example_Respond_quit:
  "Respond gindexDefendsParent Value exampleResponder attackResponse [idle, idle, quitCalled, idle] =
     (Some None,
      \<lparr>log = [ShuttingDown, ClosingHandler], shutdownCtx = True,
       txMgr = [\<lparr>maxPending = 1,
                 sent = [(\<lparr>data = [173], dest = Some 4096\<rparr>,
                          \<lparr>To = Some 4096, TxData = [173], GasLimit = 0\<rparr>)]\<rparr>],
       MaxPendingTransactions = 1, fdgContractTransactor = exampleTransactor\<rparr>)"
  by (simp add: Respond_def buildTxData_def exampleResponder_def NewFaultResponder_def
      exampleTransactor_def attackResponse_def gindexDefendsParent_def idle_def quitCalled_def
      NewFaultResponderTxData_def NewQueue_def Send_def Destination_def Bytes_def Quit_def Let_def)

section \<open>Claims about the responder\<close>

text \<open>
  C5. \<^verbatim>\<open>buildTxData\<close> calls \<^verbatim>\<open>Defend\<close> when \<^verbatim>\<open>DefendsParent()\<close> holds of the
  response and \<^verbatim>\<open>Attack\<close> otherwise, in both cases with the response's
  \<^verbatim>\<open>ParentContractIndex\<close> and its 32-byte value; its result is the error of that call
  when the call fails, and the data of the transaction otherwise.
\<close>

theorem buildTxData_matches_DefendsParent:
  "snd (buildTxData D V r response) =
     (if D response then DefendCall (sint (ParentContractIndex response)) (V response)
      else AttackCall (sint (ParentContractIndex response)) (V response)) \<and>
   fst (buildTxData D V r response) =
     (case transact (fdgContractTransactor r) (snd (buildTxData D V r response)) of
        Inl err \<Rightarrow> Inl err | Inr tx \<Rightarrow> Inr (NewFaultResponderTxData tx)) \<and>
   (\<forall>e. fst (buildTxData D V r response) = Inl e \<longleftrightarrow>
        transact (fdgContractTransactor r) (snd (buildTxData D V r response)) = Inl e)"
  by (auto simp: buildTxData_def Let_def split: sum.splits)

text \<open>An instance: a defence, an attack, and a defence that the port refuses.\<close>

theorem buildTxData_matches_DefendsParent_witness:
  "gindexDefendsParent defendResponse \<and> \<not> gindexDefendsParent attackResponse \<and>
   buildTxData gindexDefendsParent Value exampleResponder defendResponse =
     (Inr \<lparr>data = [222], dest = Some 4096\<rparr>, DefendCall 1 221) \<and>
   buildTxData gindexDefendsParent Value exampleResponder attackResponse =
     (Inr \<lparr>data = [173], dest = Some 4096\<rparr>, AttackCall 1 204) \<and>
   buildTxData gindexDefendsParent Value exampleResponder badResponse =
     (Inl (Errorf ''negative index''), DefendCall (- 1) 221)"
proof -
  have d: "gindexDefendsParent defendResponse" "\<not> gindexDefendsParent attackResponse"
    "gindexDefendsParent badResponse"
    by (simp_all add: gindexDefendsParent_def defendResponse_def attackResponse_def badResponse_def)
  have v: "sint (ParentContractIndex defendResponse) = 1" "Value defendResponse = 221"
    "sint (ParentContractIndex attackResponse) = 1" "Value attackResponse = 204"
    "sint (ParentContractIndex badResponse) = - 1" "Value badResponse = 221"
    by (simp_all add: defendResponse_def attackResponse_def badResponse_def)
  have t: "fdgContractTransactor exampleResponder = exampleTransactor"
    by (simp add: exampleResponder_def NewFaultResponder_def)
  from buildTxData_matches_DefendsParent [of gindexDefendsParent Value exampleResponder defendResponse]
    buildTxData_matches_DefendsParent [of gindexDefendsParent Value exampleResponder attackResponse]
    buildTxData_matches_DefendsParent [of gindexDefendsParent Value exampleResponder badResponse]
    d v t
  show ?thesis
    by (simp add: prod_eq_iff exampleTransactor_def NewFaultResponderTxData_def)
qed

text \<open>
  C6. When building the transaction data fails, \<^verbatim>\<open>Respond\<close> returns that error and
  leaves the responder as it was. When it succeeds, \<^verbatim>\<open>Respond\<close> returns nil as soon as
  one wake-up finds a receipt or the shutdown, whatever the receipt says, and is still
  blocked when none does; it never returns an error then.
\<close>

theorem Respond_error_iff_build_fails:
  "(case fst (buildTxData D V r response) of
      Inl err \<Rightarrow> Respond D V r response ws = (Some (Some err), r)
    | Inr txData \<Rightarrow>
        fst (Respond D V r response ws) = (if \<exists>w\<in>set ws. ready r w then Some None else None))"
proof (cases "buildTxData D V r response")
  case (Pair res call)
  show ?thesis
  proof (cases res)
    case (Inl err)
    with Pair show ?thesis by (simp add: Respond_def)
  next
    case (Inr txData)
    let ?r1 = "r\<lparr>txMgr := txMgr r @ [Send txData
        \<lparr>To = Destination txData, TxData = Bytes txData, GasLimit = 0\<rparr>
        (NewQueue (MaxPendingTransactions r))]\<rparr>"
    have rd: "ready ?r1 w = ready r w" for w by (simp add: ready_def)
    show ?thesis
    proof (cases "handleReceipts ?r1 ws")
      case None
      then have "\<not> (\<exists>w\<in>set ws. ready r w)" by (simp add: handleReceipts_None rd)
      with None Pair Inr show ?thesis by (simp add: Respond_def Let_def)
    next
      case (Some r2)
      then have "\<exists>w\<in>set ws. ready r w"
        using handleReceipts_None [of ?r1 ws] by (auto simp: rd)
      with Some Pair Inr show ?thesis by (simp add: Respond_def Let_def)
    qed
  qed
qed

text \<open>
  An instance: the refused response returns its error; a receipt with status 0 and one with
  status 1 both end the call with nil, the status going to the log; with no receipt and no
  shutdown the call is still blocked.
\<close>

theorem Respond_error_iff_build_fails_witness:
  "fst (buildTxData gindexDefendsParent Value exampleResponder badResponse) = Inl (Errorf ''negative index'')
   \<and> Respond gindexDefendsParent Value exampleResponder badResponse [idle, receiptArrives 1] =
       (Some (Some (Errorf ''negative index'')), exampleResponder)
   \<and> fst (buildTxData gindexDefendsParent Value exampleResponder attackResponse) =
       Inr \<lparr>data = [173], dest = Some 4096\<rparr>
   \<and> ready exampleResponder (receiptArrives 0) \<and> ready exampleResponder (receiptArrives 1)
   \<and> fst (Respond gindexDefendsParent Value exampleResponder attackResponse [idle, receiptArrives 0]) = Some None
   \<and> fst (Respond gindexDefendsParent Value exampleResponder attackResponse [idle, receiptArrives 1]) = Some None
   \<and> log (snd (Respond gindexDefendsParent Value exampleResponder attackResponse [idle, receiptArrives 0])) =
       [ReceivedReceipt 48879 0]
   \<and> fst (Respond gindexDefendsParent Value exampleResponder attackResponse [idle, idle]) = None"
proof -
  have b: "fst (buildTxData gindexDefendsParent Value exampleResponder badResponse) = Inl (Errorf ''negative index'')"
    "fst (buildTxData gindexDefendsParent Value exampleResponder attackResponse) =
       Inr \<lparr>data = [173], dest = Some 4096\<rparr>"
    by (simp_all add: buildTxData_def exampleResponder_def NewFaultResponder_def
      exampleTransactor_def badResponse_def attackResponse_def gindexDefendsParent_def
      NewFaultResponderTxData_def Let_def)
  have r: "ready exampleResponder (receiptArrives s)" "\<not> ready exampleResponder idle" for s
    by (simp_all add: ready_def receiptArrives_def idle_def exampleResponder_def NewFaultResponder_def)
  from Respond_error_iff_build_fails [of gindexDefendsParent Value exampleResponder badResponse "[idle, receiptArrives 1]"]
    Respond_error_iff_build_fails [of gindexDefendsParent Value exampleResponder attackResponse "[idle, receiptArrives 0]"]
    Respond_error_iff_build_fails [of gindexDefendsParent Value exampleResponder attackResponse "[idle, receiptArrives 1]"]
    Respond_error_iff_build_fails [of gindexDefendsParent Value exampleResponder attackResponse "[idle, idle]"]
    b r example_Respond_receipt [of 0]
  show ?thesis by simp
qed

text \<open>
  C9. A call of \<^verbatim>\<open>Respond\<close> made after \<^verbatim>\<open>Quit\<close> has returned by its first wake-up. A
  call that is waiting when \<^verbatim>\<open>Quit\<close> is called has returned by the wake-up that sees it.
  Neither needs a receipt.
\<close>

theorem Respond_returns_after_Quit:
  "(ws \<noteq> [] \<longrightarrow>
      fst (Respond D V (Quit r) response ws) \<noteq> None \<and>
      Respond D V (Quit r) response ws = Respond D V (Quit r) response (take 1 ws)) \<and>
   (\<forall>k<length ws. quit (ws ! k) \<longrightarrow>
      fst (Respond D V r response ws) \<noteq> None \<and>
      Respond D V r response ws = Respond D V r response (take (Suc k) ws))"
proof (intro conjI impI allI)
  assume "ws \<noteq> []"
  then have "0 < length ws" by simp
  moreover have "ready (Quit r) (ws ! 0)" by (simp add: ready_def Quit_def)
  ultimately have *: "fst (Respond D V (Quit r) response ws) \<noteq> None \<and>
     Respond D V (Quit r) response ws = Respond D V (Quit r) response (take (Suc 0) ws)"
    by (rule Respond_take)
  have t: "take 1 ws = take (Suc 0) ws" by simp
  from * show "fst (Respond D V (Quit r) response ws) \<noteq> None" by blast
  from * show "Respond D V (Quit r) response ws = Respond D V (Quit r) response (take 1 ws)"
    unfolding t by blast
next
  fix k assume k: "k < length ws" and q: "quit (ws ! k)"
  from q have "ready r (ws ! k)" by (simp add: ready_def)
  from Respond_take [OF k this]
  show "fst (Respond D V r response ws) \<noteq> None"
    and "Respond D V r response ws = Respond D V r response (take (Suc k) ws)" by blast+
qed

text \<open>
  An instance, with no receipt at any wake-up: a call that sees \<^verbatim>\<open>Quit\<close> at its third
  wake-up returns nil there, and a call made after \<^verbatim>\<open>Quit\<close> returns at its first.
\<close>

theorem Respond_returns_after_Quit_witness:
  "quit ([idle, idle, quitCalled, idle] ! 2)
   \<and> list_all (\<lambda>w. receipt w = None) [idle, idle, quitCalled, idle]
   \<and> fst (Respond gindexDefendsParent Value exampleResponder attackResponse [idle, idle, quitCalled, idle]) = Some None
   \<and> Respond gindexDefendsParent Value exampleResponder attackResponse [idle, idle, quitCalled, idle] =
       Respond gindexDefendsParent Value exampleResponder attackResponse [idle, idle, quitCalled]
   \<and> fst (Respond gindexDefendsParent Value (Quit exampleResponder) attackResponse [idle, idle]) \<noteq> None
   \<and> Respond gindexDefendsParent Value (Quit exampleResponder) attackResponse [idle, idle] =
       Respond gindexDefendsParent Value (Quit exampleResponder) attackResponse [idle]"
proof -
  let ?ws = "[idle, idle, quitCalled, idle]"
  have c1: "quit (?ws ! 2)" by (simp add: quitCalled_def)
  have c2: "list_all (\<lambda>w. receipt w = None) ?ws" by (simp add: quitCalled_def idle_def)
  have c3: "fst (Respond gindexDefendsParent Value exampleResponder attackResponse ?ws) = Some None"
    by (simp add: example_Respond_quit)
  have len: "(2::nat) < length ?ws" by simp
  have tk: "take (Suc 2) ?ws = [idle, idle, quitCalled]" by simp
  from Respond_returns_after_Quit [of ?ws gindexDefendsParent Value exampleResponder attackResponse]
    len c1
  have "Respond gindexDefendsParent Value exampleResponder attackResponse ?ws =
       Respond gindexDefendsParent Value exampleResponder attackResponse (take (Suc 2) ?ws)"
    by blast
  then have c4: "Respond gindexDefendsParent Value exampleResponder attackResponse ?ws =
       Respond gindexDefendsParent Value exampleResponder attackResponse [idle, idle, quitCalled]"
    unfolding tk .
  have ne: "[idle, idle] \<noteq> []" by simp
  have tk1: "take 1 [idle, idle] = [idle]" by simp
  from Respond_returns_after_Quit [of "[idle, idle]" gindexDefendsParent Value
      exampleResponder attackResponse] ne
  have c5: "fst (Respond gindexDefendsParent Value (Quit exampleResponder) attackResponse [idle, idle]) \<noteq> None"
    and "Respond gindexDefendsParent Value (Quit exampleResponder) attackResponse [idle, idle] =
       Respond gindexDefendsParent Value (Quit exampleResponder) attackResponse (take 1 [idle, idle])"
    by blast+
  then have c6: "Respond gindexDefendsParent Value (Quit exampleResponder) attackResponse [idle, idle] =
       Respond gindexDefendsParent Value (Quit exampleResponder) attackResponse [idle]"
    unfolding tk1 by blast
  from c1 c2 c3 c4 c5 c6 show ?thesis by (intro conjI)
qed

end
